theory Spec2Isabelle
  imports Complex_Main "HOL-Library.Sublist"
begin

text \<open>
  A model of the notebook \<^verbatim>\<open>transcoding-large-experiments\<close>: the discovery of the videos
  on the drives, the table of their metadata with its outlier rows and total duration,
  the generation of \<^verbatim>\<open>transcode.sh\<close>, and the table that compares the transcoded videos
  with their originals. The directory tree, the bytes of the files and the answers of
  OpenCV are parameters; every exception that a cell can raise is an \<open>Inl\<close> result.
\<close>

section \<open>Paths\<close>

text \<open>
  The notebook handles files through \<^verbatim>\<open>pathlib.Path\<close> on a POSIX system (the mount
  point is \<^verbatim>\<open>/media/andre\<close>). A path is its anchor (absolute or not) and the list of
  its names; \<^verbatim>\<open>Path.parts\<close> puts the root \<^verbatim>\<open>'/'\<close> in front of the names of an absolute
  path.
\<close>

datatype path = Path (is_abs: bool) (names: "string list")

datatype error = ValueError | OverflowError | IndexError | FileNotFoundError | AttributeError

definition parts :: "path \<Rightarrow> string list" where
  "parts p = (if is_abs p then [''/''] else []) @ names p"

text \<open>\<^verbatim>\<open>a / b\<close>: an absolute right operand replaces the left one.\<close>

definition joinpath :: "path \<Rightarrow> path \<Rightarrow> path" where
  "joinpath a b = (if is_abs b then b else Path (is_abs a) (names a @ names b))"

text \<open>\<^verbatim>\<open>p.relative_to(base)\<close> raises \<^verbatim>\<open>ValueError\<close> unless \<open>base\<close> is an ancestor of \<open>p\<close>
  (or \<open>p\<close> itself).\<close>

definition under :: "path \<Rightarrow> path \<Rightarrow> bool" where
  "under base p = (is_abs p = is_abs base \<and> prefix (names base) (names p))"

definition relative_to :: "path \<Rightarrow> path \<Rightarrow> error + path" where
  "relative_to p base =
     (if under base p then Inr (Path False (drop (length (names base)) (names p)))
      else Inl ValueError)"

text \<open>\<^verbatim>\<open>p.parent\<close>: the root and the empty relative path are their own parents.\<close>

definition parent :: "path \<Rightarrow> path" where
  "parent p = Path (is_abs p) (butlast (names p))"

fun join_names :: "string list \<Rightarrow> string" where
  "join_names [] = []"
| "join_names [n] = n"
| "join_names (n # m # ns) = n @ ''/'' @ join_names (m # ns)"

text \<open>\<^verbatim>\<open>str(p)\<close>, which \<^verbatim>\<open>str.format\<close> calls on a path.\<close>

definition path_str :: "path \<Rightarrow> string" where
  "path_str p =
     (if is_abs p then ''/'' @ join_names (names p)
      else if names p = [] then ''.'' else join_names (names p))"

section \<open>Configuration\<close>

definition MOUNT_POINT :: path where
  "MOUNT_POINT = Path True [''media'', ''andre'']"

definition DRIVES :: "string list" where
  "DRIVES = [''11D9-5C57'', ''5161-4A93'', ''9B57-8640'']"

definition OUTPUT_DRIVE :: path where
  "OUTPUT_DRIVE = joinpath MOUNT_POINT (Path False [''maternal''])"

section \<open>Path mapping of the transcoding and verification cells\<close>

text \<open>
  \<^verbatim>\<open>relative_path = video.relative_to(MOUNT_POINT)\<close>
  \<^verbatim>\<open>output_filepath = OUTPUT_DRIVE / relative_path\<close>
\<close>

definition output_filepath :: "path \<Rightarrow> error + path" where
  "output_filepath video =
     (case relative_to video MOUNT_POINT of
        Inl e \<Rightarrow> Inl e
      | Inr relative_path \<Rightarrow> Inr (joinpath OUTPUT_DRIVE relative_path))"

text \<open>
  \<^verbatim>\<open>relative_path = transcoded_video.relative_to(OUTPUT_DRIVE)\<close>
  \<^verbatim>\<open>original_video = MOUNT_POINT / relative_path\<close>
\<close>

definition original_video :: "path \<Rightarrow> error + path" where
  "original_video transcoded_video =
     (case relative_to transcoded_video OUTPUT_DRIVE of
        Inl e \<Rightarrow> Inl e
      | Inr relative_path \<Rightarrow> Inr (joinpath MOUNT_POINT relative_path))"

section \<open>Discovery of the videos\<close>

text \<open>
  The directory tree is a parameter: \<open>entries\<close> lists the paths that exist, in the order
  in which \<^verbatim>\<open>Path.glob\<close> walks them. \<^verbatim>\<open>dir.glob('**/*.mp4')\<close> yields every entry
  strictly below \<open>dir\<close> whose last name matches \<^verbatim>\<open>*.mp4\<close>; on POSIX the match is
  case-sensitive, so it holds exactly when the name ends in \<^verbatim>\<open>.mp4\<close>.
  \<open>glob_rec entries dir sfx\<close> stands for \<^verbatim>\<open>dir.glob('**/*' + sfx)\<close>.
\<close>

definition below :: "path \<Rightarrow> path \<Rightarrow> bool" where
  "below dir p = (is_abs p = is_abs dir \<and> strict_prefix (names dir) (names p))"

definition glob_rec :: "path list \<Rightarrow> path \<Rightarrow> string \<Rightarrow> path list" where
  "glob_rec entries dir sfx =
     filter (\<lambda>p. below dir p \<and> suffix sfx (last (names p))) entries"

definition startswith :: "string \<Rightarrow> string \<Rightarrow> bool" where
  "startswith s pre = prefix pre s"

fun visible_parts :: "string list \<Rightarrow> bool" where
  "visible_parts [] = True"
| "visible_parts (part # ps) = (if startswith part ''.'' then False else visible_parts ps)"

definition is_visible :: "path \<Rightarrow> bool" where
  "is_visible filepath = visible_parts (parts filepath)"

fun not_recycled_parts :: "string list \<Rightarrow> bool" where
  "not_recycled_parts [] = True"
| "not_recycled_parts (part # ps) =
     (if startswith part ''$RECYCLE'' then False else not_recycled_parts ps)"

definition is_not_recycled :: "path \<Rightarrow> bool" where
  "is_not_recycled filepath = not_recycled_parts (parts filepath)"

text \<open>The body of the loop over the drives, and the loop that fills \<^verbatim>\<open>all_videos\<close>.\<close>

definition drive_videos :: "path list \<Rightarrow> string \<Rightarrow> path list" where
  "drive_videos entries drive =
     (let dir = joinpath MOUNT_POINT (Path False [drive]);
          videos = glob_rec entries dir ''.mp4'' @ glob_rec entries dir ''.MPG'';
          videos = filter is_visible videos;
          videos = filter is_not_recycled videos
      in videos)"

definition all_videos :: "path list \<Rightarrow> path list" where
  "all_videos entries = concat (map (drive_videos entries) DRIVES)"

text \<open>
  The extension of a file as the notebook reads it:
  \<^verbatim>\<open>fileparts = filepath.parts[-1].split('.')\<close>, and \<^verbatim>\<open>fileparts[-1]\<close> when there is more
  than one part. \<^verbatim>\<open>parts[-1]\<close> raises on a path with no parts.
\<close>

fun split_on :: "char \<Rightarrow> string \<Rightarrow> string list" where
  "split_on c [] = [[]]"
| "split_on c (x # xs) =
     (if x = c then [] # split_on c xs
      else (case split_on c xs of [] \<Rightarrow> [[x]] | w # ws \<Rightarrow> (x # w) # ws))"

definition extension :: "path \<Rightarrow> error + string option" where
  "extension filepath =
     (if parts filepath = [] then Inl IndexError
      else let fileparts = split_on (CHR ''.'') (last (parts filepath))
           in if length fileparts > 1 then Inr (Some (last fileparts)) else Inr None)"

subsection \<open>The eligibility rule in the specification's words\<close>

definition lower :: "char \<Rightarrow> char" where
  "lower c =
     (case map_of (zip ''ABCDEFGHIJKLMNOPQRSTUVWXYZ'' ''abcdefghijklmnopqrstuvwxyz'') c of
        Some l \<Rightarrow> l
      | None \<Rightarrow> c)"

text \<open>
  A path is eligible iff (a) its extension, compared case-insensitively, is in the
  allow-list, (b) no path segment starts with a dot, (c) no path segment starts with the
  quarantine prefix.
\<close>

definition spec_isEligible :: "string list \<Rightarrow> string \<Rightarrow> path \<Rightarrow> bool" where
  "spec_isEligible allow quarantine p =
     ((case extension p of
         Inr (Some e) \<Rightarrow> map lower e \<in> set (map (map lower) allow)
       | _ \<Rightarrow> False) \<and>
      list_all (\<lambda>seg. \<not> prefix ''.'' seg) (parts p) \<and>
      list_all (\<lambda>seg. \<not> prefix quarantine seg) (parts p))"

subsection \<open>The discovery scenario\<close>

text \<open>
  A drive holding \<^verbatim>\<open>a/video.mp4\<close>, \<^verbatim>\<open>a/.hidden/video.mp4\<close>, \<^verbatim>\<open>b/$RECYCLE/video.MPG\<close> and
  \<^verbatim>\<open>c/note.txt\<close>.
\<close>

definition scenario_entries :: "path list" where
  "scenario_entries =
    [Path True [''media'', ''andre'', ''11D9-5C57'', ''a'', ''video.mp4''],
     Path True [''media'', ''andre'', ''11D9-5C57'', ''a'', ''.hidden'', ''video.mp4''],
     Path True [''media'', ''andre'', ''11D9-5C57'', ''b'', ''$RECYCLE'', ''video.MPG''],
     Path True [''media'', ''andre'', ''11D9-5C57'', ''c'', ''note.txt'']]"

section \<open>Generation of \<^verbatim>\<open>transcode.sh\<close>\<close>

text \<open>
  The command of one video: the three string literals of the cell, concatenated by
  Python, and \<^verbatim>\<open>.format(output_filepath.parent, video, output_filepath)\<close>. Only the
  second and third placeholders stand between single quotes.
\<close>

definition squote :: string where
  "squote = [CHR 0x27]"

definition newline :: string where
  "newline = [CHR 0x0A]"

definition cmd :: "path \<Rightarrow> path \<Rightarrow> string" where
  "cmd video out =
     ''mkdir -p '' @ path_str (parent out) @ '' &&'' @
     ''ffmpeg -y -hwaccel cuda -hwaccel_output_format cuda -extra_hw_frames 4 -i '' @
       squote @ path_str video @ squote @ '' '' @
     ''-c:v h264_nvenc -crf 24 '' @ squote @ path_str out @ squote @ newline"

text \<open>
  The loop over \<^verbatim>\<open>all_videos\<close> that collects \<^verbatim>\<open>lines\<close>; a \<^verbatim>\<open>ValueError\<close> of
  \<^verbatim>\<open>relative_to\<close> leaves the loop before anything is written.
\<close>

fun transcode_lines :: "path list \<Rightarrow> error + string list" where
  "transcode_lines [] = Inr []"
| "transcode_lines (video # videos) =
     (case output_filepath video of
        Inl e \<Rightarrow> Inl e
      | Inr out \<Rightarrow>
          (case transcode_lines videos of
             Inl e \<Rightarrow> Inl e
           | Inr lines \<Rightarrow> Inr (cmd video out # lines)))"

definition transcode_sh :: "path list \<Rightarrow> error + string list" where
  "transcode_sh entries = transcode_lines (all_videos entries)"

subsection \<open>Two drives holding the same relative path\<close>

definition clip_entries :: "path list" where
  "clip_entries =
    [Path True [''media'', ''andre'', ''11D9-5C57'', ''x'', ''clip.mp4''],
     Path True [''media'', ''andre'', ''5161-4A93'', ''x'', ''clip.mp4'']]"

section \<open>Video metadata\<close>

text \<open>
  The values of a \<^verbatim>\<open>float64\<close> column and of \<^verbatim>\<open>cap.get\<close>. Finite values are taken as
  exact reals: rounding, overflow and the sign of zero are left out. What the cells
  below depend on is kept: \<open>NaN\<close> is the missing value of pandas, it propagates
  through arithmetic, and a division by zero gives an infinity or \<open>NaN\<close> instead of
  raising.
\<close>

datatype float64 = NaN | PInf | NInf | Fin real

fun fadd :: "float64 \<Rightarrow> float64 \<Rightarrow> float64" where
  "fadd NaN _ = NaN"
| "fadd _ NaN = NaN"
| "fadd PInf NInf = NaN"
| "fadd NInf PInf = NaN"
| "fadd PInf _ = PInf"
| "fadd _ PInf = PInf"
| "fadd NInf _ = NInf"
| "fadd _ NInf = NInf"
| "fadd (Fin a) (Fin b) = Fin (a + b)"

fun fdiv :: "float64 \<Rightarrow> float64 \<Rightarrow> float64" where
  "fdiv NaN _ = NaN"
| "fdiv _ NaN = NaN"
| "fdiv (Fin a) (Fin b) =
     (if b = 0 then (if a = 0 then NaN else if 0 < a then PInf else NInf) else Fin (a / b))"
| "fdiv (Fin a) PInf = Fin 0"
| "fdiv (Fin a) NInf = Fin 0"
| "fdiv PInf (Fin b) = (if 0 \<le> b then PInf else NInf)"
| "fdiv NInf (Fin b) = (if 0 \<le> b then NInf else PInf)"
| "fdiv _ _ = NaN"

text \<open>\<^verbatim>\<open>int(x)\<close> of a float truncates towards zero and raises on \<open>NaN\<close> and the
  infinities.\<close>

definition py_int :: "float64 \<Rightarrow> error + int" where
  "py_int x =
     (case x of
        NaN \<Rightarrow> Inl ValueError
      | PInf \<Rightarrow> Inl OverflowError
      | NInf \<Rightarrow> Inl OverflowError
      | Fin r \<Rightarrow> Inr (if 0 \<le> r then \<lfloor>r\<rfloor> else \<lceil>r\<rceil>))"

text \<open>
  OpenCV is outside the repository. \<open>content\<close> gives the bytes of the file at a path
  (\<open>None\<close> when there is none), and \<open>decode\<close> is what \<^verbatim>\<open>cv2.VideoCapture(...).get\<close>
  answers for a file with these bytes.
\<close>

datatype cap_prop =
  CAP_PROP_FRAME_COUNT | CAP_PROP_FPS | CAP_PROP_FRAME_WIDTH | CAP_PROP_FRAME_HEIGHT

type_synonym decoder = "string option \<Rightarrow> cap_prop \<Rightarrow> float64"

definition VideoCapture :: "decoder \<Rightarrow> (path \<Rightarrow> string option) \<Rightarrow> path \<Rightarrow> cap_prop \<Rightarrow> float64" where
  "VideoCapture decode content video = decode (content video)"

text \<open>One row of \<^verbatim>\<open>metadata_df\<close>; \<open>video_file\<close> is the column \<^verbatim>\<open>file\<close>. The column
  \<^verbatim>\<open>frames\<close> holds integers until the outliers are overwritten with \<^verbatim>\<open>None\<close>.\<close>

record metadata =
  video_file :: path
  filetype :: string
  frames :: "int option"
  fps :: float64
  width :: int
  height :: int

definition video_metadata :: "decoder \<Rightarrow> (path \<Rightarrow> string option) \<Rightarrow> path \<Rightarrow> error + metadata" where
  "video_metadata decode content video =
     (let cap = VideoCapture decode content video in
      if parts video = [] then Inl IndexError
      else case py_int (cap CAP_PROP_FRAME_COUNT) of
        Inl e \<Rightarrow> Inl e
      | Inr n \<Rightarrow>
         (case py_int (cap CAP_PROP_FRAME_WIDTH) of
            Inl e \<Rightarrow> Inl e
          | Inr w \<Rightarrow>
             (case py_int (cap CAP_PROP_FRAME_HEIGHT) of
                Inl e \<Rightarrow> Inl e
              | Inr h \<Rightarrow>
                  Inr \<lparr>video_file = video,
                       filetype = last (split_on (CHR ''.'') (last (parts video))),
                       frames = Some n,
                       fps = cap CAP_PROP_FPS,
                       width = w,
                       height = h\<rparr>)))"

fun metadata_loop :: "decoder \<Rightarrow> (path \<Rightarrow> string option) \<Rightarrow> path list \<Rightarrow> error + metadata list" where
  "metadata_loop decode content [] = Inr []"
| "metadata_loop decode content (video # videos) =
     (case video_metadata decode content video of
        Inl e \<Rightarrow> Inl e
      | Inr m \<Rightarrow>
          (case metadata_loop decode content videos of
             Inl e \<Rightarrow> Inl e
           | Inr ms \<Rightarrow> Inr (m # ms)))"

subsection \<open>The outlier rows\<close>

text \<open>
  \<^verbatim>\<open>outlier_rows = metadata_df.frames < 0\<close>
  \<^verbatim>\<open>metadata_df.loc[outlier_rows, 'frames'] = None\<close>
  \<^verbatim>\<open>metadata_df.loc[outlier_rows]\<close>

  \<^verbatim>\<open>pd.DataFrame(metadata)\<close> of an empty list has no columns, so \<^verbatim>\<open>metadata_df.frames\<close>
  raises \<^verbatim>\<open>AttributeError\<close> when no video was found.
\<close>

definition outlier_rows :: "metadata list \<Rightarrow> error + bool list" where
  "outlier_rows df =
     (if df = [] then Inl AttributeError
      else Inr (map (\<lambda>r. case frames r of None \<Rightarrow> False | Some n \<Rightarrow> n < 0) df))"

definition loc_set_frames_None :: "bool list \<Rightarrow> metadata list \<Rightarrow> metadata list" where
  "loc_set_frames_None sel df =
     map (\<lambda>(b, r). if b then r\<lparr>frames := None\<rparr> else r) (zip sel df)"

definition loc :: "bool list \<Rightarrow> metadata list \<Rightarrow> metadata list" where
  "loc sel df = map snd (filter fst (zip sel df))"

text \<open>The table after the cell, and the rows the cell displays.\<close>

definition patched :: "metadata list \<Rightarrow> error + metadata list" where
  "patched df =
     (case outlier_rows df of
        Inl e \<Rightarrow> Inl e
      | Inr sel \<Rightarrow> Inr (loc_set_frames_None sel df))"

definition outliers :: "metadata list \<Rightarrow> error + metadata list" where
  "outliers df =
     (case outlier_rows df of
        Inl e \<Rightarrow> Inl e
      | Inr sel \<Rightarrow> Inr (loc sel (loc_set_frames_None sel df)))"

subsection \<open>Total duration\<close>

text \<open>
  \<^verbatim>\<open>total_seconds = (metadata_df.frames / metadata_df.fps).sum()\<close>: the element-wise
  quotient of the two columns, and the sum of pandas, which skips \<open>NaN\<close>. On a table
  without rows the columns do not exist and the attribute access raises.
\<close>

definition to_float :: "int option \<Rightarrow> float64" where
  "to_float v = (case v of None \<Rightarrow> NaN | Some n \<Rightarrow> Fin (of_int n))"

definition duration :: "metadata \<Rightarrow> float64" where
  "duration r = fdiv (to_float (frames r)) (fps r)"

definition fsum :: "float64 list \<Rightarrow> float64" where
  "fsum xs = foldl fadd (Fin 0) xs"

definition nansum :: "float64 list \<Rightarrow> float64" where
  "nansum xs = fsum (filter (\<lambda>x. x \<noteq> NaN) xs)"

definition total_seconds :: "metadata list \<Rightarrow> error + float64" where
  "total_seconds df =
     (if df = [] then Inl AttributeError else Inr (nansum (map duration df)))"

subsection \<open>Probe answers used in the examples\<close>

text \<open>A file whose frame count is read as \<open>-3074457345618259968\<close>, a file whose frame
  rate is read as zero, and a directory tree without readable bytes.\<close>

definition corrupt_decode :: decoder where
  "corrupt_decode bytes prop =
     (case prop of
        CAP_PROP_FRAME_COUNT \<Rightarrow> Fin (- 3074457345618259968)
      | CAP_PROP_FPS \<Rightarrow> Fin 30
      | CAP_PROP_FRAME_WIDTH \<Rightarrow> Fin 704
      | CAP_PROP_FRAME_HEIGHT \<Rightarrow> Fin 480)"

definition zero_fps_decode :: decoder where
  "zero_fps_decode bytes prop =
     (case prop of
        CAP_PROP_FRAME_COUNT \<Rightarrow> Fin 300
      | CAP_PROP_FPS \<Rightarrow> Fin 0
      | CAP_PROP_FRAME_WIDTH \<Rightarrow> Fin 704
      | CAP_PROP_FRAME_HEIGHT \<Rightarrow> Fin 480)"

definition no_content :: "path \<Rightarrow> string option" where
  "no_content p = None"

section \<open>Verification of the transcoded videos\<close>

text \<open>\<^verbatim>\<open>p.stat().st_size\<close>: the number of bytes, \<^verbatim>\<open>FileNotFoundError\<close> when there is no
  file.\<close>

definition st_size :: "(path \<Rightarrow> string option) \<Rightarrow> path \<Rightarrow> error + nat" where
  "st_size content p =
     (case content p of None \<Rightarrow> Inl FileNotFoundError | Some bytes \<Rightarrow> Inr (length bytes))"

text \<open>
  \<^verbatim>\<open>round(size / 1e6, 1)\<close> is a computation on doubles, whose rounding is not modelled:
  the function from the number of bytes to the rounded number of megabytes is the
  parameter \<open>round_mb\<close> of the cell.

  One row of \<^verbatim>\<open>transcoded_metadata_df\<close>; \<open>original_file\<close> and \<open>original_frames\<close> are
  the columns \<^verbatim>\<open>file\<close> and \<^verbatim>\<open>frames\<close>. The row has no other column.
\<close>

record verification =
  original_file :: path
  transcoded_file :: path
  original_frames :: int
  transcoded_frames :: int
  filesize_mb :: real
  transcoded_filesize_mb :: real

definition transcoded_videos :: "path list \<Rightarrow> path list" where
  "transcoded_videos entries =
     glob_rec entries OUTPUT_DRIVE ''.mp4'' @ glob_rec entries OUTPUT_DRIVE ''.MPG''"

definition verify_video ::
    "decoder \<Rightarrow> (path \<Rightarrow> string option) \<Rightarrow> (nat \<Rightarrow> real) \<Rightarrow> path \<Rightarrow> error + verification" where
  "verify_video decode content round_mb transcoded_video =
     (case original_video transcoded_video of
        Inl e \<Rightarrow> Inl e
      | Inr original \<Rightarrow>
         (let original_cap = VideoCapture decode content original;
              transcoded_cap = VideoCapture decode content transcoded_video
          in case py_int (original_cap CAP_PROP_FRAME_COUNT) of
               Inl e \<Rightarrow> Inl e
             | Inr n \<Rightarrow>
                (case py_int (transcoded_cap CAP_PROP_FRAME_COUNT) of
                   Inl e \<Rightarrow> Inl e
                 | Inr tn \<Rightarrow>
                    (case st_size content original of
                       Inl e \<Rightarrow> Inl e
                     | Inr s \<Rightarrow>
                        (case st_size content transcoded_video of
                           Inl e \<Rightarrow> Inl e
                         | Inr ts \<Rightarrow>
                             Inr \<lparr>original_file = original,
                                  transcoded_file = transcoded_video,
                                  original_frames = n,
                                  transcoded_frames = tn,
                                  filesize_mb = round_mb s,
                                  transcoded_filesize_mb = round_mb ts\<rparr>)))))"

fun verification_loop ::
    "decoder \<Rightarrow> (path \<Rightarrow> string option) \<Rightarrow> (nat \<Rightarrow> real) \<Rightarrow> path list \<Rightarrow>
     error + verification list" where
  "verification_loop decode content round_mb [] = Inr []"
| "verification_loop decode content round_mb (transcoded_video # videos) =
     (case verify_video decode content round_mb transcoded_video of
        Inl e \<Rightarrow> Inl e
      | Inr m \<Rightarrow>
          (case verification_loop decode content round_mb videos of
             Inl e \<Rightarrow> Inl e
           | Inr ms \<Rightarrow> Inr (m # ms)))"

definition transcoded_metadata ::
    "decoder \<Rightarrow> (path \<Rightarrow> string option) \<Rightarrow> (nat \<Rightarrow> real) \<Rightarrow> path list \<Rightarrow>
     error + verification list" where
  "transcoded_metadata decode content round_mb entries =
     verification_loop decode content round_mb (transcoded_videos entries)"

subsection \<open>A transcoded video and two possible contents of it\<close>

text \<open>
  An original and its transcoded file. In \<open>copied_content\<close> the transcoded file has
  the bytes of the original; in \<open>resized_content\<close> it has other bytes of the same
  length, for which \<open>width_decode\<close> answers another frame width and the same frame count.
  \<open>output_entries\<close> is a tree that holds the two files; in \<open>stray_output_entries\<close>
  the output drive also holds a video that has no original.
\<close>

definition clip_original :: path where
  "clip_original = Path True [''media'', ''andre'', ''11D9-5C57'', ''x'', ''clip.mp4'']"

definition clip_transcoded :: path where
  "clip_transcoded =
     Path True [''media'', ''andre'', ''maternal'', ''11D9-5C57'', ''x'', ''clip.mp4'']"

definition copied_content :: "path \<Rightarrow> string option" where
  "copied_content p =
     (if p = clip_original then Some ''AAAA''
      else if p = clip_transcoded then Some ''AAAA'' else None)"

definition resized_content :: "path \<Rightarrow> string option" where
  "resized_content p =
     (if p = clip_original then Some ''AAAA''
      else if p = clip_transcoded then Some ''BBBB'' else None)"

definition output_entries :: "path list" where
  "output_entries = [clip_original, clip_transcoded]"

definition stray_output_entries :: "path list" where
  "stray_output_entries =
     [clip_original, clip_transcoded,
      Path True [''media'', ''andre'', ''maternal'', ''old'', ''left.mp4'']]"

definition width_decode :: decoder where
  "width_decode bytes prop =
     (case prop of
        CAP_PROP_FRAME_COUNT \<Rightarrow> Fin 300
      | CAP_PROP_FPS \<Rightarrow> Fin 30
      | CAP_PROP_FRAME_WIDTH \<Rightarrow> (if bytes = Some ''BBBB'' then Fin 704 else Fin 720)
      | CAP_PROP_FRAME_HEIGHT \<Rightarrow> Fin 480)"

subsection \<open>Directory names with a blank\<close>

text \<open>
  A video in a directory \<^verbatim>\<open>Day 1\<close>, and a video below a directory whose name ends
  in a blank.
\<close>

definition blank_entries :: "path list" where
  "blank_entries =
    [Path True [''media'', ''andre'', ''11D9-5C57'', ''Day 1'', ''clip.mp4'']]"

definition stray_entries :: "path list" where
  "stray_entries =
    [Path True [''media'', ''andre'', ''11D9-5C57'', ''x '', ''media'', ''andre'',
       ''11D9-5C57'', ''y'', ''clip.mp4'']]"

subsection \<open>Rows and captures used in the examples\<close>







section \<open>Facts about paths\<close>

lemma OUTPUT_DRIVE_eq: "OUTPUT_DRIVE = Path True [''media'', ''andre'', ''maternal'']"
  by (simp add: OUTPUT_DRIVE_def MOUNT_POINT_def joinpath_def)

lemma under_MOUNT_POINT_iff:
  "under MOUNT_POINT p \<longleftrightarrow> (\<exists>rel. p = Path True ([''media'', ''andre''] @ rel))"
proof
  assume "under MOUNT_POINT p"
  then obtain rel where "is_abs p" and "names p = [''media'', ''andre''] @ rel"
    by (auto simp: under_def MOUNT_POINT_def prefix_def)
  then have "p = Path True ([''media'', ''andre''] @ rel)"
    by (cases p) simp
  then show "\<exists>rel. p = Path True ([''media'', ''andre''] @ rel)" ..
next
  assume "\<exists>rel. p = Path True ([''media'', ''andre''] @ rel)"
  then show "under MOUNT_POINT p"
    by (auto simp: under_def MOUNT_POINT_def)
qed

lemma under_OUTPUT_DRIVE_iff:
  "under OUTPUT_DRIVE p \<longleftrightarrow> (\<exists>rel. p = Path True ([''media'', ''andre'', ''maternal''] @ rel))"
proof
  assume "under OUTPUT_DRIVE p"
  then obtain rel where "is_abs p" and "names p = [''media'', ''andre'', ''maternal''] @ rel"
    by (auto simp: under_def OUTPUT_DRIVE_eq prefix_def)
  then have "p = Path True ([''media'', ''andre'', ''maternal''] @ rel)"
    by (cases p) simp
  then show "\<exists>rel. p = Path True ([''media'', ''andre'', ''maternal''] @ rel)" ..
next
  assume "\<exists>rel. p = Path True ([''media'', ''andre'', ''maternal''] @ rel)"
  then show "under OUTPUT_DRIVE p"
    by (auto simp: under_def OUTPUT_DRIVE_eq)
qed

lemma output_filepath_under:
  "output_filepath (Path True (''media'' # ''andre'' # rel)) =
     Inr (Path True (''media'' # ''andre'' # ''maternal'' # rel))"
  by (simp add: output_filepath_def relative_to_def under_def MOUNT_POINT_def
      OUTPUT_DRIVE_def joinpath_def)

lemma original_video_under:
  "original_video (Path True (''media'' # ''andre'' # ''maternal'' # rel)) =
     Inr (Path True (''media'' # ''andre'' # rel))"
  by (simp add: original_video_def relative_to_def under_def OUTPUT_DRIVE_eq
      MOUNT_POINT_def joinpath_def)

lemma below_drive_iff:
  "below (joinpath MOUNT_POINT (Path False [drive])) p \<longleftrightarrow>
     (\<exists>x xs. p = Path True (''media'' # ''andre'' # drive # x # xs))"
proof
  assume "below (joinpath MOUNT_POINT (Path False [drive])) p"
  then have "is_abs p" and "strict_prefix [''media'', ''andre'', drive] (names p)"
    by (auto simp: below_def joinpath_def MOUNT_POINT_def)
  then obtain zs where zs: "names p = [''media'', ''andre'', drive] @ zs" "zs \<noteq> []"
    by (auto simp: strict_prefix_def prefix_def)
  then obtain x xs where "zs = x # xs"
    by (cases zs) auto
  with zs have "names p = [''media'', ''andre'', drive] @ x # xs"
    by simp
  with \<open>is_abs p\<close> have "p = Path True (''media'' # ''andre'' # drive # x # xs)"
    by (cases p) simp
  then show "\<exists>x xs. p = Path True (''media'' # ''andre'' # drive # x # xs)" by blast
next
  assume "\<exists>x xs. p = Path True (''media'' # ''andre'' # drive # x # xs)"
  then show "below (joinpath MOUNT_POINT (Path False [drive])) p"
    by (auto simp: below_def joinpath_def MOUNT_POINT_def)
qed

section \<open>Facts about discovery\<close>

lemma split_on_ne: "split_on c s \<noteq> []"
  by (induction s) (auto split: list.splits)

lemma split_on_no_sep: "c \<notin> set e \<Longrightarrow> split_on c e = [e]"
  by (induction e) auto

lemma split_on_append_sep:
  "c \<notin> set e \<Longrightarrow> split_on c (zs @ c # e) = split_on c zs @ [e]"
proof (induction zs)
  case Nil
  then show ?case by (simp add: split_on_no_sep)
next
  case (Cons x zs)
  then show ?case
    by (cases "split_on c zs") (auto simp: split_on_ne)
qed

lemma length_split_on: "length (split_on c s) > 1 \<longleftrightarrow> c \<in> set s"
  by (induction s) (auto split: list.splits simp: split_on_ne)

lemma split_on_suffix:
  assumes "c \<notin> set e"
  shows "(length (split_on c s) > 1 \<and> last (split_on c s) = e) \<longleftrightarrow> suffix (c # e) s"
proof
  assume a: "length (split_on c s) > 1 \<and> last (split_on c s) = e"
  then have "c \<in> set s" using length_split_on [of c s] by blast
  then obtain zs e' where s: "s = zs @ c # e'" and e': "c \<notin> set e'"
    by (meson split_list_last)
  then have "last (split_on c s) = e'" by (simp add: split_on_append_sep)
  with a s show "suffix (c # e) s" by (auto simp: suffix_def)
next
  assume "suffix (c # e) s"
  then obtain zs where "s = zs @ c # e" by (auto simp: suffix_def)
  with assms show "length (split_on c s) > 1 \<and> last (split_on c s) = e"
    by (cases "split_on c zs") (auto simp: split_on_append_sep split_on_ne)
qed

text \<open>The glob pattern \<^verbatim>\<open>*.mp4\<close> selects the names whose extension is exactly \<^verbatim>\<open>mp4\<close>.\<close>

lemma extension_suffix:
  assumes "names p \<noteq> []" "CHR ''.'' \<notin> set e"
  shows "extension p = Inr (Some e) \<longleftrightarrow> suffix (''.'' @ e) (last (names p))"
proof -
  have "parts p \<noteq> []" "last (parts p) = last (names p)"
    using assms(1) by (auto simp: parts_def)
  then show ?thesis
    using split_on_suffix [OF assms(2), of "last (names p)"]
    by (auto simp: extension_def Let_def)
qed

lemma visible_parts_iff: "visible_parts ps \<longleftrightarrow> list_all (\<lambda>seg. \<not> prefix ''.'' seg) ps"
  by (induction ps) (auto simp: startswith_def)

lemma not_recycled_parts_iff:
  "not_recycled_parts ps \<longleftrightarrow> list_all (\<lambda>seg. \<not> prefix ''$RECYCLE'' seg) ps"
  by (induction ps) (auto simp: startswith_def)

lemma set_drive_videos:
  "p \<in> set (drive_videos entries drive) \<longleftrightarrow>
     p \<in> set entries \<and> below (joinpath MOUNT_POINT (Path False [drive])) p \<and>
     (suffix ''.mp4'' (last (names p)) \<or> suffix ''.MPG'' (last (names p))) \<and>
     is_visible p \<and> is_not_recycled p"
  by (auto simp: drive_videos_def glob_rec_def Let_def)

lemma set_all_videos:
  "p \<in> set (all_videos entries) \<longleftrightarrow>
     p \<in> set entries \<and>
     (\<exists>drive \<in> set DRIVES. below (joinpath MOUNT_POINT (Path False [drive])) p) \<and>
     (suffix ''.mp4'' (last (names p)) \<or> suffix ''.MPG'' (last (names p))) \<and>
     is_visible p \<and> is_not_recycled p"
  unfolding all_videos_def by (auto simp: set_drive_videos)

lemma all_videos_shape:
  assumes "video \<in> set (all_videos entries)"
  obtains drive x xs where "drive \<in> set DRIVES"
    and "video = Path True (''media'' # ''andre'' # drive # x # xs)"
  using assms by (auto simp: set_all_videos below_drive_iff)

section \<open>Planner and verifier agree on paths\<close>

text \<open>
  Claim C10. The output path computed by the transcoding cell and the original path
  reconstructed by the verification cell are inverse to each other: for every video
  under the mount point the output path is defined, and making it relative to the
  output drive and joining it to the mount point gives the video back; in the other
  direction, every path under the output drive is the output path of the original
  that the verification cell reconstructs for it.
\<close>

theorem output_original_inverse:
  "(under MOUNT_POINT video \<longrightarrow>
      (\<exists>out. output_filepath video = Inr out \<and> original_video out = Inr video)) \<and>
   (under OUTPUT_DRIVE transcoded \<longrightarrow>
      (\<exists>orig. original_video transcoded = Inr orig \<and> output_filepath orig = Inr transcoded))"
  by (auto simp: under_MOUNT_POINT_iff under_OUTPUT_DRIVE_iff output_filepath_under
      original_video_under)

theorem output_original_inverse_witness:
  "under MOUNT_POINT (Path True [''media'', ''andre'', ''11D9-5C57'', ''x'', ''clip.mp4'']) \<and>
   output_filepath (Path True [''media'', ''andre'', ''11D9-5C57'', ''x'', ''clip.mp4'']) =
     Inr (Path True [''media'', ''andre'', ''maternal'', ''11D9-5C57'', ''x'', ''clip.mp4'']) \<and>
   original_video (Path True [''media'', ''andre'', ''maternal'', ''11D9-5C57'', ''x'', ''clip.mp4''])
     = Inr (Path True [''media'', ''andre'', ''11D9-5C57'', ''x'', ''clip.mp4'']) \<and>
   under OUTPUT_DRIVE (Path True [''media'', ''andre'', ''maternal'', ''11D9-5C57'', ''x'', ''clip.mp4''])"
  using output_original_inverse
    [of "Path True [''media'', ''andre'', ''11D9-5C57'', ''x'', ''clip.mp4'']"
        "Path True [''media'', ''andre'', ''maternal'', ''11D9-5C57'', ''x'', ''clip.mp4'']"]
  by (simp add: under_def MOUNT_POINT_def OUTPUT_DRIVE_eq output_filepath_def
      original_video_def relative_to_def joinpath_def)

section \<open>Eligibility of a discovered path\<close>

lemmas eval_discovery =
  all_videos_def drive_videos_def glob_rec_def below_def joinpath_def MOUNT_POINT_def
  DRIVES_def is_visible_def is_not_recycled_def parts_def startswith_def suffix_to_prefix
  Let_def

lemma all_videos_scenario:
  "all_videos scenario_entries =
     [Path True [''media'', ''andre'', ''11D9-5C57'', ''a'', ''video.mp4'']]"
  by (simp add: scenario_entries_def eval_discovery)

text \<open>
  Claim C4, as the code has it. An entry of the tree is among the discovered videos
  if and only if it lies below one of the drives, (a) its extension is exactly
  \<^verbatim>\<open>mp4\<close> or exactly \<^verbatim>\<open>MPG\<close> (the two glob patterns match case-sensitively),
  (b) no part of the path starts with a dot, and (c) no part of the path starts with
  \<^verbatim>\<open>$RECYCLE\<close>. In the scenario only \<^verbatim>\<open>a/video.mp4\<close> is discovered.
\<close>

theorem all_videos_selects:
  "(p \<in> set (all_videos entries) \<longleftrightarrow>
      p \<in> set entries \<and>
      (\<exists>drive \<in> set DRIVES. below (joinpath MOUNT_POINT (Path False [drive])) p) \<and>
      (extension p = Inr (Some ''mp4'') \<or> extension p = Inr (Some ''MPG'')) \<and>
      list_all (\<lambda>seg. \<not> prefix ''.'' seg) (parts p) \<and>
      list_all (\<lambda>seg. \<not> prefix ''$RECYCLE'' seg) (parts p)) \<and>
   all_videos scenario_entries =
     [Path True [''media'', ''andre'', ''11D9-5C57'', ''a'', ''video.mp4'']]"
proof -
  have ext: "extension p = Inr (Some e) \<longleftrightarrow> suffix (''.'' @ e) (last (names p))"
    if "below (joinpath MOUNT_POINT (Path False [drive])) p" "CHR ''.'' \<notin> set e" for drive e
  proof -
    from that(1) have "names p \<noteq> []" by (auto simp: below_drive_iff)
    then show ?thesis using that(2) by (rule extension_suffix)
  qed
  have "p \<in> set (all_videos entries) \<longleftrightarrow>
      p \<in> set entries \<and>
      (\<exists>drive \<in> set DRIVES. below (joinpath MOUNT_POINT (Path False [drive])) p) \<and>
      (extension p = Inr (Some ''mp4'') \<or> extension p = Inr (Some ''MPG'')) \<and>
      list_all (\<lambda>seg. \<not> prefix ''.'' seg) (parts p) \<and>
      list_all (\<lambda>seg. \<not> prefix ''$RECYCLE'' seg) (parts p)"
    unfolding set_all_videos is_visible_def is_not_recycled_def visible_parts_iff
      not_recycled_parts_iff
    using ext [of _ "''mp4''"] ext [of _ "''MPG''"] by auto
  then show ?thesis using all_videos_scenario by simp
qed

text \<open>
  The rule in the specification's words compares the extension case-insensitively;
  the glob patterns do not: \<^verbatim>\<open>a/video.MP4\<close> on a drive satisfies (a), (b) and (c) and
  is not discovered.
\<close>

theorem eligibility_case_counterexample:
  "spec_isEligible [''mp4'', ''MPG''] ''$RECYCLE''
     (Path True [''media'', ''andre'', ''11D9-5C57'', ''a'', ''video.MP4'']) \<and>
   below (joinpath MOUNT_POINT (Path False [''11D9-5C57'']))
     (Path True [''media'', ''andre'', ''11D9-5C57'', ''a'', ''video.MP4'']) \<and>
   Path True [''media'', ''andre'', ''11D9-5C57'', ''a'', ''video.MP4''] \<notin>
     set (all_videos [Path True [''media'', ''andre'', ''11D9-5C57'', ''a'', ''video.MP4'']])"
  by (simp add: spec_isEligible_def extension_def lower_def eval_discovery)

section \<open>The output path keeps the drive\<close>

text \<open>
  Claim C6, as the code has it. A discovered video lies below one of the drives
  that are walked. Its output path is the output drive joined with its path
  relative to the mount point, that is the output drive, then the name of the drive,
  then the path of the video relative to its drive. So the output path lies below
  the output drive, it differs from the input path, and the directories below the
  drive, the file name and the extension are unchanged.
\<close>

theorem output_filepath_keeps_drive:
  "video \<in> set (all_videos entries) \<Longrightarrow>
     \<exists>drive rel out.
        drive \<in> set DRIVES \<and>
        relative_to video (joinpath MOUNT_POINT (Path False [drive])) = Inr rel \<and>
        \<not> is_abs rel \<and> names rel \<noteq> [] \<and>
        names video = [''media'', ''andre'', drive] @ names rel \<and>
        output_filepath video = Inr out \<and>
        is_abs out \<and>
        names out = [''media'', ''andre'', ''maternal'', drive] @ names rel \<and>
        out = joinpath (joinpath OUTPUT_DRIVE (Path False [drive])) rel \<and>
        below OUTPUT_DRIVE out \<and>
        out \<noteq> video \<and>
        parent out = joinpath (joinpath OUTPUT_DRIVE (Path False [drive])) (parent rel) \<and>
        last (parts out) = last (parts video) \<and>
        extension out = extension video"
proof -
  assume "video \<in> set (all_videos entries)"
  then obtain drive x xs where d: "drive \<in> set DRIVES"
    and v: "video = Path True (''media'' # ''andre'' # drive # x # xs)"
    by (rule all_videos_shape)
  let ?rel = "Path False (x # xs)"
  let ?out = "Path True (''media'' # ''andre'' # ''maternal'' # drive # x # xs)"
  have "relative_to video (joinpath MOUNT_POINT (Path False [drive])) = Inr ?rel"
    by (simp add: v relative_to_def under_def joinpath_def MOUNT_POINT_def)
  moreover have "\<not> is_abs ?rel" "names ?rel \<noteq> []"
    by simp_all
  moreover have "names video = [''media'', ''andre'', drive] @ names ?rel"
    by (simp add: v)
  moreover have "output_filepath video = Inr ?out"
    by (simp add: v output_filepath_under)
  moreover have "is_abs ?out"
    "names ?out = [''media'', ''andre'', ''maternal'', drive] @ names ?rel"
    by simp_all
  moreover have "?out = joinpath (joinpath OUTPUT_DRIVE (Path False [drive])) ?rel"
    by (simp add: joinpath_def OUTPUT_DRIVE_eq)
  moreover have "below OUTPUT_DRIVE ?out"
    by (simp add: below_def OUTPUT_DRIVE_eq)
  moreover have "?out \<noteq> video"
  proof
    assume "?out = video"
    then have "drive = ''maternal''" by (simp add: v)
    with d show False by (simp add: DRIVES_def)
  qed
  moreover have "parent ?out = joinpath (joinpath OUTPUT_DRIVE (Path False [drive])) (parent ?rel)"
    by (simp add: parent_def joinpath_def OUTPUT_DRIVE_eq)
  moreover have "last (parts ?out) = last (parts video)"
    by (simp add: v parts_def)
  moreover have "extension ?out = extension video"
    by (simp add: v extension_def parts_def)
  ultimately show ?thesis
    using d by blast
qed

theorem output_filepath_keeps_drive_witness:
  "Path True [''media'', ''andre'', ''11D9-5C57'', ''a'', ''video.mp4'']
     \<in> set (all_videos scenario_entries) \<and>
   output_filepath (Path True [''media'', ''andre'', ''11D9-5C57'', ''a'', ''video.mp4'']) =
     Inr (Path True [''media'', ''andre'', ''maternal'', ''11D9-5C57'', ''a'', ''video.mp4'']) \<and>
   (\<exists>drive rel out.
        drive \<in> set DRIVES \<and>
        relative_to (Path True [''media'', ''andre'', ''11D9-5C57'', ''a'', ''video.mp4''])
          (joinpath MOUNT_POINT (Path False [drive])) = Inr rel \<and>
        output_filepath (Path True [''media'', ''andre'', ''11D9-5C57'', ''a'', ''video.mp4''])
          = Inr out \<and>
        names out = [''media'', ''andre'', ''maternal'', drive] @ names rel \<and>
        below OUTPUT_DRIVE out)"
proof -
  have m: "Path True [''media'', ''andre'', ''11D9-5C57'', ''a'', ''video.mp4'']
     \<in> set (all_videos scenario_entries)"
    by (simp add: all_videos_scenario)
  have o: "output_filepath (Path True [''media'', ''andre'', ''11D9-5C57'', ''a'', ''video.mp4''])
     = Inr (Path True [''media'', ''andre'', ''maternal'', ''11D9-5C57'', ''a'', ''video.mp4''])"
    by (simp add: output_filepath_under)
  from m o output_filepath_keeps_drive [OF m] show ?thesis
    by blast
qed

text \<open>
  With the path of a video taken relative to the drive in which it was found, the
  output path is not the output drive joined with that path: the video
  \<^verbatim>\<open>a/video.mp4\<close> of the drive \<^verbatim>\<open>11D9-5C57\<close> goes to
  \<^verbatim>\<open>/media/andre/maternal/11D9-5C57/a/video.mp4\<close>, not to
  \<^verbatim>\<open>/media/andre/maternal/a/video.mp4\<close>.
\<close>

theorem drive_relative_counterexample:
  "Path True [''media'', ''andre'', ''11D9-5C57'', ''a'', ''video.mp4'']
     \<in> set (all_videos scenario_entries) \<and>
   relative_to (Path True [''media'', ''andre'', ''11D9-5C57'', ''a'', ''video.mp4''])
     (joinpath MOUNT_POINT (Path False [''11D9-5C57''])) = Inr (Path False [''a'', ''video.mp4'']) \<and>
   joinpath OUTPUT_DRIVE (Path False [''a'', ''video.mp4'']) =
     Path True [''media'', ''andre'', ''maternal'', ''a'', ''video.mp4''] \<and>
   output_filepath (Path True [''media'', ''andre'', ''11D9-5C57'', ''a'', ''video.mp4'']) =
     Inr (Path True [''media'', ''andre'', ''maternal'', ''11D9-5C57'', ''a'', ''video.mp4'']) \<and>
   output_filepath (Path True [''media'', ''andre'', ''11D9-5C57'', ''a'', ''video.mp4'']) \<noteq>
     Inr (joinpath OUTPUT_DRIVE (Path False [''a'', ''video.mp4'']))"
  by (simp add: all_videos_scenario output_filepath_under relative_to_def under_def
      joinpath_def MOUNT_POINT_def OUTPUT_DRIVE_eq)

section \<open>Planning never meets a collision\<close>

lemma output_filepath_inject:
  assumes "output_filepath v1 = Inr out" and "output_filepath v2 = Inr out"
  shows "v1 = v2"
proof -
  from assms(1) have "under MOUNT_POINT v1"
    by (auto simp: output_filepath_def relative_to_def split: if_splits)
  then obtain r1 where v1: "v1 = Path True (''media'' # ''andre'' # r1)"
    by (auto simp: under_MOUNT_POINT_iff)
  from assms(2) have "under MOUNT_POINT v2"
    by (auto simp: output_filepath_def relative_to_def split: if_splits)
  then obtain r2 where v2: "v2 = Path True (''media'' # ''andre'' # r2)"
    by (auto simp: under_MOUNT_POINT_iff)
  from assms have "Path True (''media'' # ''andre'' # ''maternal'' # r1) =
      Path True (''media'' # ''andre'' # ''maternal'' # r2)"
    by (simp add: v1 v2 output_filepath_under)
  then show ?thesis
    by (simp add: v1 v2)
qed

lemma transcode_lines_total:
  assumes "list_all (under MOUNT_POINT) videos"
  shows "\<exists>lines. transcode_lines videos = Inr lines \<and> length lines = length videos \<and>
           (\<forall>i < length videos. \<exists>out. output_filepath (videos ! i) = Inr out \<and>
                                       lines ! i = cmd (videos ! i) out)"
  using assms
proof (induction videos)
  case Nil
  then show ?case by simp
next
  case (Cons video videos)
  then obtain lines where l: "transcode_lines videos = Inr lines"
      "length lines = length videos"
      "\<forall>i < length videos. \<exists>out. output_filepath (videos ! i) = Inr out \<and>
                                  lines ! i = cmd (videos ! i) out"
    by auto
  from Cons.prems obtain rel where "video = Path True (''media'' # ''andre'' # rel)"
    by (auto simp: under_MOUNT_POINT_iff)
  then obtain out where o: "output_filepath video = Inr out"
    by (simp add: output_filepath_under)
  have "\<exists>out'. output_filepath ((video # videos) ! i) = Inr out' \<and>
          (cmd video out # lines) ! i = cmd ((video # videos) ! i) out'"
    if "i < length (video # videos)" for i
    using that o l(3) by (cases i) auto
  with l o show ?case by simp
qed

lemma all_videos_under: "list_all (under MOUNT_POINT) (all_videos entries)"
proof -
  have "under MOUNT_POINT video" if "video \<in> set (all_videos entries)" for video
    using that by (rule all_videos_shape) (simp add: under_def MOUNT_POINT_def)
  then show ?thesis by (simp add: list_all_iff)
qed

lemma transcode_sh_total:
  "\<exists>lines. transcode_sh entries = Inr lines \<and> length lines = length (all_videos entries) \<and>
     (\<forall>i < length (all_videos entries).
        \<exists>out. output_filepath (all_videos entries ! i) = Inr out \<and>
              lines ! i = cmd (all_videos entries ! i) out)"
  unfolding transcode_sh_def by (rule transcode_lines_total [OF all_videos_under])

lemmas eval_cmd =
  transcode_sh_def output_filepath_def relative_to_def under_def OUTPUT_DRIVE_eq cmd_def
  path_str_def parent_def squote_def newline_def

text \<open>
  Claim C3, as the code has it. Two different input paths never get the same output
  path: the output path keeps the whole path below the mount point, the drive's name
  included. So the generation of the script has no collision to report: it never
  fails and yields one command per discovered video.
\<close>

theorem no_output_collision:
  "(output_filepath v1 = Inr out \<and> output_filepath v2 = Inr out \<longrightarrow> v1 = v2) \<and>
   (\<exists>lines. transcode_sh entries = Inr lines \<and> length lines = length (all_videos entries))"
  using output_filepath_inject [of v1 out v2] transcode_sh_total [of entries] by blast

theorem no_output_collision_witness:
  "output_filepath (Path True [''media'', ''andre'', ''11D9-5C57'', ''x'', ''clip.mp4'']) =
     Inr (Path True [''media'', ''andre'', ''maternal'', ''11D9-5C57'', ''x'', ''clip.mp4'']) \<and>
   (\<exists>lines. transcode_sh clip_entries = Inr lines \<and>
      length lines = length (all_videos clip_entries))"
  using no_output_collision
    [of "Path True [''media'', ''andre'', ''11D9-5C57'', ''x'', ''clip.mp4'']"
        "Path True [''media'', ''andre'', ''maternal'', ''11D9-5C57'', ''x'', ''clip.mp4'']"
        "Path True [''media'', ''andre'', ''11D9-5C57'', ''x'', ''clip.mp4'']"
        clip_entries]
  by (simp add: output_filepath_under)

text \<open>
  Two drives that both hold \<^verbatim>\<open>x/clip.mp4\<close>: the script is generated, with two
  commands whose output paths differ. Nothing fails and no job is dropped.
\<close>

theorem same_relative_path_counterexample:
  "transcode_sh clip_entries =
     Inr [cmd (Path True [''media'', ''andre'', ''11D9-5C57'', ''x'', ''clip.mp4''])
            (Path True [''media'', ''andre'', ''maternal'', ''11D9-5C57'', ''x'', ''clip.mp4'']),
          cmd (Path True [''media'', ''andre'', ''5161-4A93'', ''x'', ''clip.mp4''])
            (Path True [''media'', ''andre'', ''maternal'', ''5161-4A93'', ''x'', ''clip.mp4''])] \<and>
   Path True [''media'', ''andre'', ''maternal'', ''11D9-5C57'', ''x'', ''clip.mp4''] \<noteq>
   Path True [''media'', ''andre'', ''maternal'', ''5161-4A93'', ''x'', ''clip.mp4'']"
  by (simp add: clip_entries_def transcode_sh_def eval_discovery output_filepath_def
      relative_to_def under_def OUTPUT_DRIVE_eq)

section \<open>Facts about the metadata table\<close>

lemma fdiv_NaN_right: "fdiv x NaN = NaN"
  by (cases x) simp_all






lemma metadata_loop_rows:
  "metadata_loop decode content videos = Inr df \<Longrightarrow>
     length df = length videos \<and>
     (\<forall>i < length videos. video_metadata decode content (videos ! i) = Inr (df ! i))"
proof (induction videos arbitrary: df)
  case Nil
  then show ?case by simp
next
  case (Cons video videos)
  from Cons.prems obtain m ms where m: "video_metadata decode content video = Inr m"
    and ms: "metadata_loop decode content videos = Inr ms" and df: "df = m # ms"
    by (auto split: sum.splits)
  from Cons.IH [OF ms] have ih: "length ms = length videos"
    "\<forall>i < length videos. video_metadata decode content (videos ! i) = Inr (ms ! i)"
    by auto
  have "video_metadata decode content ((video # videos) ! i) = Inr (df ! i)"
    if "i < length (video # videos)" for i
    using that m ih(2) df by (cases i) auto
  with ih(1) df show ?case by simp
qed

lemma video_metadata_fields:
  assumes "video_metadata decode content video = Inr m"
  shows "video_file m = video"
    and "py_int (VideoCapture decode content video CAP_PROP_FRAME_COUNT) = Inr n \<Longrightarrow>
           frames m = Some n"
    and "fps m = VideoCapture decode content video CAP_PROP_FPS"
    and "py_int (VideoCapture decode content video CAP_PROP_FRAME_WIDTH) = Inr (width m)"
    and "py_int (VideoCapture decode content video CAP_PROP_FRAME_HEIGHT) = Inr (height m)"
    and "frames m \<noteq> None"
  using assms
  by (auto simp: video_metadata_def Let_def split: if_splits sum.splits)

lemma loc_patched:
  "loc (map f df) (loc_set_frames_None (map f df) df) =
     map (\<lambda>r. r\<lparr>frames := None\<rparr>) (filter f df)"
  by (induction df) (simp_all add: loc_def loc_set_frames_None_def)

lemma outlier_rows_eq:
  "df \<noteq> [] \<Longrightarrow>
     outlier_rows df = Inr (map (\<lambda>r. case frames r of None \<Rightarrow> False | Some n \<Rightarrow> n < 0) df)"
  by (simp add: outlier_rows_def)

lemma patched_eq:
  "df \<noteq> [] \<Longrightarrow>
     patched df =
       Inr (map (\<lambda>r. if (case frames r of None \<Rightarrow> False | Some n \<Rightarrow> n < 0)
                     then r\<lparr>frames := None\<rparr> else r) df)"
  by (simp add: patched_def loc_set_frames_None_def outlier_rows_def zip_map1
      zip_same_conv_map comp_def)

lemma outliers_eq:
  "df \<noteq> [] \<Longrightarrow>
     outliers df =
       Inr (map (\<lambda>r. r\<lparr>frames := None\<rparr>)
         (filter (\<lambda>r. case frames r of None \<Rightarrow> False | Some n \<Rightarrow> n < 0) df))"
  by (simp add: outliers_def outlier_rows_def loc_patched)

lemmas eval_metadata =
  video_metadata_def VideoCapture_def py_int_def parts_def Let_def patched_eq outliers_eq
  outlier_rows_eq

lemmas eval_seconds =
  total_seconds_def nansum_def fsum_def duration_def to_float_def

section \<open>Total duration\<close>




section \<open>Negative frame counts\<close>

text \<open>
  Claim C2. When the metadata of the discovered videos has been read and the frame
  count of the \<open>i\<close>-th video is read as a negative number, the outlier cell runs
  without error and after it the row of that video has no frame count (\<open>None\<close>)
  while its frame rate and dimensions are the ones read. The mask \<^verbatim>\<open>outlier_rows\<close>
  marks exactly the rows whose frame count was read as negative, this row among
  them, and the rows displayed as outliers are exactly the rows of the table so
  marked. \<^verbatim>\<open>transcode.sh\<close> is generated with one line per video, and its \<open>i\<close>-th line
  is the command that reads this video and writes its output path.
\<close>

theorem negative_frames_flagged:
  assumes "metadata_loop decode content (all_videos entries) = Inr df"
    and "i < length (all_videos entries)"
    and "py_int (VideoCapture decode content (all_videos entries ! i) CAP_PROP_FRAME_COUNT)
           = Inr n"
    and "n < 0"
  shows "\<exists>sel df' shown lines rel.
         outlier_rows df = Inr sel \<and> patched df = Inr df' \<and> outliers df = Inr shown \<and>
         length sel = length df \<and> length df' = length df \<and>
         (\<forall>j < length df.
            sel ! j = (case frames (df ! j) of None \<Rightarrow> False | Some m \<Rightarrow> m < 0) \<and>
            (df' ! j \<in> set shown) = sel ! j) \<and>
         shown = map (\<lambda>r. r\<lparr>frames := None\<rparr>)
                   (filter (\<lambda>r. case frames r of None \<Rightarrow> False | Some m \<Rightarrow> m < 0) df) \<and>
         sel ! i \<and>
         df' ! i \<in> set shown \<and>
         video_file (df' ! i) = all_videos entries ! i \<and>
         frames (df' ! i) = None \<and>
         fps (df' ! i) =
           VideoCapture decode content (all_videos entries ! i) CAP_PROP_FPS \<and>
         py_int (VideoCapture decode content (all_videos entries ! i) CAP_PROP_FRAME_WIDTH)
           = Inr (width (df' ! i)) \<and>
         py_int (VideoCapture decode content (all_videos entries ! i) CAP_PROP_FRAME_HEIGHT)
           = Inr (height (df' ! i)) \<and>
         transcode_sh entries = Inr lines \<and>
         length lines = length (all_videos entries) \<and>
         relative_to (all_videos entries ! i) MOUNT_POINT = Inr rel \<and>
         lines ! i =
           ''mkdir -p '' @ path_str (parent (joinpath OUTPUT_DRIVE rel)) @ '' &&'' @
           ''ffmpeg -y -hwaccel cuda -hwaccel_output_format cuda -extra_hw_frames 4 -i '' @
             squote @ path_str (all_videos entries ! i) @ squote @ '' '' @
           ''-c:v h264_nvenc -crf 24 '' @ squote @ path_str (joinpath OUTPUT_DRIVE rel) @
             squote @ newline"
proof -
  let ?neg = "\<lambda>r. case frames r of None \<Rightarrow> False | Some m \<Rightarrow> m < 0"
  let ?sel = "map ?neg df"
  let ?df' = "map (\<lambda>r. if ?neg r then r\<lparr>frames := None\<rparr> else r) df"
  let ?shown = "map (\<lambda>r. r\<lparr>frames := None\<rparr>) (filter ?neg df)"
  from metadata_loop_rows [OF assms(1)]
  have len: "length df = length (all_videos entries)"
    and rows: "\<forall>j < length (all_videos entries).
                 video_metadata decode content (all_videos entries ! j) = Inr (df ! j)"
    by auto
  from len assms(2) have i: "i < length df" and ne: "df \<noteq> []"
    by auto
  from rows assms(2)
  have row: "video_metadata decode content (all_videos entries ! i) = Inr (df ! i)"
    by simp
  note f = video_metadata_fields [OF row]
  have neg: "frames (df ! i) = Some n"
    using f(2) assms(3) by simp
  have known: "frames (df ! j) \<noteq> None" if "j < length df" for j
    using rows len that video_metadata_fields(6) by metis
  have s1: "outlier_rows df = Inr ?sel" "patched df = Inr ?df'" "outliers df = Inr ?shown"
    using ne by (simp_all add: outlier_rows_eq patched_eq outliers_eq)
  have s2: "length ?sel = length df" "length ?df' = length df"
    by simp_all
  have s3: "?sel ! j = ?neg (df ! j) \<and> (?df' ! j \<in> set ?shown) = ?sel ! j"
    if "j < length df" for j
  proof (cases "?neg (df ! j)")
    case True
    then have "df ! j \<in> set (filter ?neg df)"
      using that by simp
    then have "(df ! j)\<lparr>frames := None\<rparr> \<in> set ?shown"
      by (metis (no_types, lifting) image_eqI set_map)
    with True that show ?thesis by simp
  next
    case False
    have k: "frames (?df' ! j) \<noteq> None"
      using False that known [OF that] by simp
    have "?df' ! j \<notin> set ?shown"
    proof
      assume "?df' ! j \<in> set ?shown"
      then have "frames (?df' ! j) = None"
        by auto
      with k show False
        by simp
    qed
    with False that show ?thesis by simp
  qed
  have s4: "?sel ! i" "frames (?df' ! i) = None"
    using i neg assms(4) by simp_all
  with s3 [OF i] have s5: "?df' ! i \<in> set ?shown"
    by simp
  have s6: "video_file (?df' ! i) = all_videos entries ! i"
    "fps (?df' ! i) = VideoCapture decode content (all_videos entries ! i) CAP_PROP_FPS"
    "py_int (VideoCapture decode content (all_videos entries ! i) CAP_PROP_FRAME_WIDTH)
       = Inr (width (?df' ! i))"
    "py_int (VideoCapture decode content (all_videos entries ! i) CAP_PROP_FRAME_HEIGHT)
       = Inr (height (?df' ! i))"
    using i f(1,3,4,5) by simp_all
  from transcode_sh_total [of entries] assms(2)
  obtain lines out where l: "transcode_sh entries = Inr lines"
    "length lines = length (all_videos entries)"
    "output_filepath (all_videos entries ! i) = Inr out"
    "lines ! i = cmd (all_videos entries ! i) out"
    by auto
  from l(3) obtain rel where r: "relative_to (all_videos entries ! i) MOUNT_POINT = Inr rel"
    "out = joinpath OUTPUT_DRIVE rel"
    by (auto simp: output_filepath_def split: sum.splits)
  have s7: "lines ! i =
           ''mkdir -p '' @ path_str (parent (joinpath OUTPUT_DRIVE rel)) @ '' &&'' @
           ''ffmpeg -y -hwaccel cuda -hwaccel_output_format cuda -extra_hw_frames 4 -i '' @
             squote @ path_str (all_videos entries ! i) @ squote @ '' '' @
           ''-c:v h264_nvenc -crf 24 '' @ squote @ path_str (joinpath OUTPUT_DRIVE rel) @
             squote @ newline"
    unfolding l(4) r(2) cmd_def by (rule refl)
  from s3 have s3': "\<forall>j < length df. ?sel ! j = ?neg (df ! j) \<and>
      (?df' ! j \<in> set ?shown) = ?sel ! j"
    by blast
  show ?thesis
    using s1 s2 s3' s4 s5 s6 l(1,2) r(1) s7 by blast
qed

theorem negative_frames_flagged_witness:
  "metadata_loop corrupt_decode no_content (all_videos scenario_entries) =
     Inr [\<lparr>video_file = Path True [''media'', ''andre'', ''11D9-5C57'', ''a'', ''video.mp4''],
           filetype = ''mp4'', frames = Some (- 3074457345618259968), fps = Fin 30,
           width = 704, height = 480\<rparr>] \<and>
   py_int (VideoCapture corrupt_decode no_content (all_videos scenario_entries ! 0)
     CAP_PROP_FRAME_COUNT) = Inr (- 3074457345618259968) \<and>
   outlier_rows
     [\<lparr>video_file = Path True [''media'', ''andre'', ''11D9-5C57'', ''a'', ''video.mp4''],
       filetype = ''mp4'', frames = Some (- 3074457345618259968), fps = Fin 30,
       width = 704, height = 480\<rparr>] = Inr [True] \<and>
   patched
     [\<lparr>video_file = Path True [''media'', ''andre'', ''11D9-5C57'', ''a'', ''video.mp4''],
       filetype = ''mp4'', frames = Some (- 3074457345618259968), fps = Fin 30,
       width = 704, height = 480\<rparr>] =
     Inr [\<lparr>video_file = Path True [''media'', ''andre'', ''11D9-5C57'', ''a'', ''video.mp4''],
           filetype = ''mp4'', frames = None, fps = Fin 30, width = 704, height = 480\<rparr>] \<and>
   outliers
     [\<lparr>video_file = Path True [''media'', ''andre'', ''11D9-5C57'', ''a'', ''video.mp4''],
       filetype = ''mp4'', frames = Some (- 3074457345618259968), fps = Fin 30,
       width = 704, height = 480\<rparr>] =
     Inr [\<lparr>video_file = Path True [''media'', ''andre'', ''11D9-5C57'', ''a'', ''video.mp4''],
           filetype = ''mp4'', frames = None, fps = Fin 30, width = 704, height = 480\<rparr>] \<and>
   transcode_sh scenario_entries =
     Inr [''mkdir -p /media/andre/maternal/11D9-5C57/a &&'' @
          ''ffmpeg -y -hwaccel cuda -hwaccel_output_format cuda -extra_hw_frames 4 -i '' @
          [CHR 0x27] @ ''/media/andre/11D9-5C57/a/video.mp4'' @ [CHR 0x27] @
          '' -c:v h264_nvenc -crf 24 '' @
          [CHR 0x27] @ ''/media/andre/maternal/11D9-5C57/a/video.mp4'' @ [CHR 0x27] @
          [CHR 0x0A]] \<and>
   (\<exists>df' lines.
      patched
        [\<lparr>video_file = Path True [''media'', ''andre'', ''11D9-5C57'', ''a'', ''video.mp4''],
          filetype = ''mp4'', frames = Some (- 3074457345618259968), fps = Fin 30,
          width = 704, height = 480\<rparr>] = Inr df' \<and>
      frames (df' ! 0) = None \<and>
      transcode_sh scenario_entries = Inr lines \<and>
      length lines = length (all_videos scenario_entries))"
proof -
  let ?row = "\<lparr>video_file = Path True [''media'', ''andre'', ''11D9-5C57'', ''a'', ''video.mp4''],
           filetype = ''mp4'', frames = Some (- 3074457345618259968), fps = Fin 30,
           width = 704, height = 480\<rparr>"
  have h1: "metadata_loop corrupt_decode no_content (all_videos scenario_entries) = Inr [?row]"
    by (simp add: all_videos_scenario eval_metadata corrupt_decode_def)
  have h2: "0 < length (all_videos scenario_entries)"
    by (simp add: all_videos_scenario)
  have h3: "py_int (VideoCapture corrupt_decode no_content (all_videos scenario_entries ! 0)
              CAP_PROP_FRAME_COUNT) = Inr (- 3074457345618259968)"
    by (simp add: eval_metadata corrupt_decode_def)
  have h4: "(- 3074457345618259968 :: int) < 0"
    by simp
  have c1: "outlier_rows [?row] = Inr [True]"
    by (simp add: outlier_rows_def)
  have c2: "patched [?row] = Inr [?row\<lparr>frames := None\<rparr>]"
    by (simp add: patched_eq)
  have c3: "outliers [?row] = Inr [?row\<lparr>frames := None\<rparr>]"
    by (simp add: outliers_eq)
  have c4: "transcode_sh scenario_entries =
     Inr [''mkdir -p /media/andre/maternal/11D9-5C57/a &&'' @
          ''ffmpeg -y -hwaccel cuda -hwaccel_output_format cuda -extra_hw_frames 4 -i '' @
          [CHR 0x27] @ ''/media/andre/11D9-5C57/a/video.mp4'' @ [CHR 0x27] @
          '' -c:v h264_nvenc -crf 24 '' @
          [CHR 0x27] @ ''/media/andre/maternal/11D9-5C57/a/video.mp4'' @ [CHR 0x27] @
          [CHR 0x0A]]"
    by (simp add: all_videos_scenario eval_cmd MOUNT_POINT_def joinpath_def)
  from negative_frames_flagged [OF h1 h2 h3 h4]
  have c5: "\<exists>df' lines. patched [?row] = Inr df' \<and> frames (df' ! 0) = None \<and>
      transcode_sh scenario_entries = Inr lines \<and>
      length lines = length (all_videos scenario_entries)"
    by blast
  from h1 h3 c1 c2 c3 c4 c5 show ?thesis
    by simp
qed

section \<open>Frame rates are not validated\<close>

text \<open>
  Claim C5, as the code has it. The notebook does not look at the sign of the frame
  rate. For every discovered video the row keeps the frame rate as it was read,
  before and after the outlier cell, whatever its value; a row is selected as an
  outlier exactly when its frame count is negative; and the duration of the row is
  the quotient by the frame rate that was read.
\<close>

theorem fps_kept_as_read:
  assumes "metadata_loop decode content (all_videos entries) = Inr df"
    and "i < length (all_videos entries)"
  shows "\<exists>sel df'.
         outlier_rows df = Inr sel \<and> patched df = Inr df' \<and>
         fps (df ! i) = VideoCapture decode content (all_videos entries ! i) CAP_PROP_FPS \<and>
         fps (df' ! i) = VideoCapture decode content (all_videos entries ! i) CAP_PROP_FPS \<and>
         sel ! i = (\<exists>n. frames (df ! i) = Some n \<and> n < 0) \<and>
         duration (df' ! i) =
           fdiv (to_float (frames (df' ! i)))
             (VideoCapture decode content (all_videos entries ! i) CAP_PROP_FPS)"
proof -
  let ?neg = "\<lambda>r. case frames r of None \<Rightarrow> False | Some m \<Rightarrow> m < 0"
  let ?sel = "map ?neg df"
  let ?df' = "map (\<lambda>r. if ?neg r then r\<lparr>frames := None\<rparr> else r) df"
  from metadata_loop_rows [OF assms(1)] assms(2)
  have len: "i < length df"
    and row: "video_metadata decode content (all_videos entries ! i) = Inr (df ! i)"
    by auto
  then have ne: "df \<noteq> []"
    by auto
  have s: "outlier_rows df = Inr ?sel" "patched df = Inr ?df'"
    using ne by (simp_all add: outlier_rows_eq patched_eq)
  have a: "fps (df ! i) = VideoCapture decode content (all_videos entries ! i) CAP_PROP_FPS"
    by (rule video_metadata_fields(3) [OF row])
  have b: "fps (?df' ! i) = fps (df ! i)"
    using len by simp
  have c: "?sel ! i = (\<exists>n. frames (df ! i) = Some n \<and> n < 0)"
    using len by (auto split: option.splits)
  have d: "duration (?df' ! i) =
           fdiv (to_float (frames (?df' ! i)))
             (VideoCapture decode content (all_videos entries ! i) CAP_PROP_FPS)"
    using a b by (simp add: duration_def)
  show ?thesis
    using s a b c d by (metis (no_types, lifting))
qed

theorem fps_kept_as_read_witness:
  "metadata_loop zero_fps_decode no_content (all_videos scenario_entries) =
     Inr [\<lparr>video_file = Path True [''media'', ''andre'', ''11D9-5C57'', ''a'', ''video.mp4''],
           filetype = ''mp4'', frames = Some 300, fps = Fin 0, width = 704, height = 480\<rparr>] \<and>
   (\<exists>sel df'.
      outlier_rows
        [\<lparr>video_file = Path True [''media'', ''andre'', ''11D9-5C57'', ''a'', ''video.mp4''],
          filetype = ''mp4'', frames = Some 300, fps = Fin 0, width = 704, height = 480\<rparr>]
        = Inr sel \<and>
      patched
        [\<lparr>video_file = Path True [''media'', ''andre'', ''11D9-5C57'', ''a'', ''video.mp4''],
          filetype = ''mp4'', frames = Some 300, fps = Fin 0, width = 704, height = 480\<rparr>]
        = Inr df' \<and>
      fps (df' ! 0) =
        VideoCapture zero_fps_decode no_content (all_videos scenario_entries ! 0) CAP_PROP_FPS) \<and>
   VideoCapture zero_fps_decode no_content (all_videos scenario_entries ! 0) CAP_PROP_FPS = Fin 0"
proof -
  let ?row = "\<lparr>video_file = Path True [''media'', ''andre'', ''11D9-5C57'', ''a'', ''video.mp4''],
           filetype = ''mp4'', frames = Some 300, fps = Fin 0, width = 704, height = 480\<rparr>"
  have h1: "metadata_loop zero_fps_decode no_content (all_videos scenario_entries) = Inr [?row]"
    by (simp add: all_videos_scenario eval_metadata zero_fps_decode_def)
  have h2: "0 < length (all_videos scenario_entries)"
    by (simp add: all_videos_scenario)
  have v: "VideoCapture zero_fps_decode no_content (all_videos scenario_entries ! 0)
             CAP_PROP_FPS = Fin 0"
    by (simp add: VideoCapture_def zero_fps_decode_def)
  from fps_kept_as_read [OF h1 h2] h1 v show ?thesis
    by blast
qed

text \<open>
  A video whose frame rate is read as zero: its row keeps the frame rate \<open>0\<close>, which
  is not the unknown value \<open>NaN\<close>; the outlier cell selects no row; and the total
  duration is the result of dividing by that zero.
\<close>

theorem zero_fps_counterexample:
  "metadata_loop zero_fps_decode no_content (all_videos scenario_entries) =
     Inr [\<lparr>video_file = Path True [''media'', ''andre'', ''11D9-5C57'', ''a'', ''video.mp4''],
           filetype = ''mp4'', frames = Some 300, fps = Fin 0, width = 704, height = 480\<rparr>] \<and>
   patched
     [\<lparr>video_file = Path True [''media'', ''andre'', ''11D9-5C57'', ''a'', ''video.mp4''],
       filetype = ''mp4'', frames = Some 300, fps = Fin 0, width = 704, height = 480\<rparr>] =
     Inr [\<lparr>video_file = Path True [''media'', ''andre'', ''11D9-5C57'', ''a'', ''video.mp4''],
           filetype = ''mp4'', frames = Some 300, fps = Fin 0, width = 704, height = 480\<rparr>] \<and>
   Fin 0 \<noteq> NaN \<and>
   outliers
     [\<lparr>video_file = Path True [''media'', ''andre'', ''11D9-5C57'', ''a'', ''video.mp4''],
       filetype = ''mp4'', frames = Some 300, fps = Fin 0, width = 704, height = 480\<rparr>] = Inr [] \<and>
   total_seconds
     [\<lparr>video_file = Path True [''media'', ''andre'', ''11D9-5C57'', ''a'', ''video.mp4''],
       filetype = ''mp4'', frames = Some 300, fps = Fin 0, width = 704, height = 480\<rparr>] = Inr PInf"
  by (simp add: all_videos_scenario eval_metadata zero_fps_decode_def eval_seconds)


section \<open>What the verification cell records\<close>

lemma verify_video_frame_count_only:
  assumes "\<And>bytes. decode' bytes CAP_PROP_FRAME_COUNT = decode bytes CAP_PROP_FRAME_COUNT"
  shows "verify_video decode' content round_mb t = verify_video decode content round_mb t"
  unfolding verify_video_def VideoCapture_def Let_def assms by (rule refl)

lemma verification_loop_frame_count_only:
  assumes "\<And>bytes. decode' bytes CAP_PROP_FRAME_COUNT = decode bytes CAP_PROP_FRAME_COUNT"
  shows "verification_loop decode' content round_mb ts =
         verification_loop decode content round_mb ts"
proof (induction ts)
  case Nil
  then show ?case by simp
next
  case (Cons t ts)
  have "verify_video decode' content round_mb t = verify_video decode content round_mb t"
    by (rule verify_video_frame_count_only) (rule assms)
  with Cons show ?case by (simp cong: sum.case_cong)
qed

lemma verify_video_Inr_iff:
  "verify_video decode content round_mb t = Inr row \<longleftrightarrow>
     (\<exists>orig n tn bytes tbytes.
        original_video t = Inr orig \<and>
        py_int (decode (content orig) CAP_PROP_FRAME_COUNT) = Inr n \<and>
        py_int (decode (content t) CAP_PROP_FRAME_COUNT) = Inr tn \<and>
        content orig = Some bytes \<and> content t = Some tbytes \<and>
        row = \<lparr>original_file = orig, transcoded_file = t,
               original_frames = n, transcoded_frames = tn,
               filesize_mb = round_mb (length bytes),
               transcoded_filesize_mb = round_mb (length tbytes)\<rparr>)"
  by (auto simp: verify_video_def VideoCapture_def st_size_def Let_def
      split: sum.splits option.splits)

lemma verification_loop_Inr_iff:
  "verification_loop decode content round_mb ts = Inr rows \<longleftrightarrow>
     length rows = length ts \<and>
     (\<forall>i < length ts. verify_video decode content round_mb (ts ! i) = Inr (rows ! i))"
proof (induction ts arbitrary: rows)
  case Nil
  then show ?case by auto
next
  case (Cons t ts)
  show ?case
  proof (cases rows)
    case Nil
    then show ?thesis by (auto split: sum.splits)
  next
    case (Cons r rs)
    have "(\<forall>i < length (t # ts). verify_video decode content round_mb ((t # ts) ! i) =
             Inr ((r # rs) ! i)) \<longleftrightarrow>
          verify_video decode content round_mb t = Inr r \<and>
          (\<forall>i < length ts. verify_video decode content round_mb (ts ! i) = Inr (rs ! i))"
      by (auto simp: nth_Cons split: nat.splits)
    with Cons Cons.IH [of rs] show ?thesis
      by (auto split: sum.splits)
  qed
qed

text \<open>
  Claim C7, as the code has it. The verification cell yields a table exactly when
  every transcoded video found below the output drive has readable frame counts
  and existing files on both sides, its original being the file with the same path
  below the mount point; otherwise the cell raises and there is no table. The table
  has one row per transcoded video, in the order of discovery, holding the path of
  the original, the path of the transcoded video, the two frame counts and the two
  rounded sizes, and nothing else: no verdict and no list of differences is
  computed. The table depends on the answers of OpenCV through the frame counts
  only, so a change of frame width or height leaves it as it is. A transcoded video
  with the bytes of its original and a readable frame count gets a row whose two
  frame counts are equal and whose two sizes are equal.
\<close>

theorem verification_table:
  "(transcoded_metadata decode content round_mb entries = Inr rows \<longleftrightarrow>
      length rows = length (transcoded_videos entries) \<and>
      (\<forall>i < length (transcoded_videos entries).
         \<exists>orig n tn bytes tbytes.
           original_video (transcoded_videos entries ! i) = Inr orig \<and>
           py_int (decode (content orig) CAP_PROP_FRAME_COUNT) = Inr n \<and>
           py_int (decode (content (transcoded_videos entries ! i)) CAP_PROP_FRAME_COUNT)
             = Inr tn \<and>
           content orig = Some bytes \<and>
           content (transcoded_videos entries ! i) = Some tbytes \<and>
           rows ! i =
             \<lparr>original_file = orig, transcoded_file = transcoded_videos entries ! i,
              original_frames = n, transcoded_frames = tn,
              filesize_mb = round_mb (length bytes),
              transcoded_filesize_mb = round_mb (length tbytes)\<rparr>)) \<and>
   (stray \<in> set (transcoded_videos entries) \<and> original_video stray = Inr missing \<and>
    content missing = None \<longrightarrow>
      (\<exists>e. transcoded_metadata decode content round_mb entries = Inl e)) \<and>
   ((\<forall>b. decode' b CAP_PROP_FRAME_COUNT = decode b CAP_PROP_FRAME_COUNT) \<longrightarrow>
      transcoded_metadata decode' content round_mb entries =
      transcoded_metadata decode content round_mb entries) \<and>
   (original_video t = Inr original \<and> content t = Some copy \<and> content original = Some copy \<and>
    decode (Some copy) CAP_PROP_FRAME_COUNT = Fin c \<longrightarrow>
      verify_video decode content round_mb t =
        Inr \<lparr>original_file = original, transcoded_file = t,
             original_frames = (if 0 \<le> c then \<lfloor>c\<rfloor> else \<lceil>c\<rceil>),
             transcoded_frames = (if 0 \<le> c then \<lfloor>c\<rfloor> else \<lceil>c\<rceil>),
             filesize_mb = round_mb (length copy),
             transcoded_filesize_mb = round_mb (length copy)\<rparr>)"
proof -
  have a: "transcoded_metadata decode content round_mb entries = Inr rows \<longleftrightarrow>
      length rows = length (transcoded_videos entries) \<and>
      (\<forall>i < length (transcoded_videos entries).
         \<exists>orig n tn bytes tbytes.
           original_video (transcoded_videos entries ! i) = Inr orig \<and>
           py_int (decode (content orig) CAP_PROP_FRAME_COUNT) = Inr n \<and>
           py_int (decode (content (transcoded_videos entries ! i)) CAP_PROP_FRAME_COUNT)
             = Inr tn \<and>
           content orig = Some bytes \<and>
           content (transcoded_videos entries ! i) = Some tbytes \<and>
           rows ! i =
             \<lparr>original_file = orig, transcoded_file = transcoded_videos entries ! i,
              original_frames = n, transcoded_frames = tn,
              filesize_mb = round_mb (length bytes),
              transcoded_filesize_mb = round_mb (length tbytes)\<rparr>)"
    unfolding transcoded_metadata_def verification_loop_Inr_iff verify_video_Inr_iff
    by (rule refl)
  have b: "\<exists>e. transcoded_metadata decode content round_mb entries = Inl e"
    if "stray \<in> set (transcoded_videos entries)" "original_video stray = Inr missing"
      "content missing = None"
  proof (cases "transcoded_metadata decode content round_mb entries")
    case (Inl e)
    then show ?thesis by blast
  next
    case (Inr rs)
    from that(1) obtain i where i: "i < length (transcoded_videos entries)"
      "transcoded_videos entries ! i = stray"
      by (auto simp: in_set_conv_nth)
    from Inr i(1) have "\<exists>r. verify_video decode content round_mb (transcoded_videos entries ! i)
        = Inr r"
      unfolding transcoded_metadata_def verification_loop_Inr_iff by blast
    with i(2) that(2,3) show ?thesis
      by (auto simp: verify_video_Inr_iff)
  qed
  have c: "transcoded_metadata decode' content round_mb entries =
      transcoded_metadata decode content round_mb entries"
    if "\<forall>b. decode' b CAP_PROP_FRAME_COUNT = decode b CAP_PROP_FRAME_COUNT"
    unfolding transcoded_metadata_def
    using that by (intro verification_loop_frame_count_only) simp
  have d: "verify_video decode content round_mb t =
        Inr \<lparr>original_file = original, transcoded_file = t,
             original_frames = (if 0 \<le> c then \<lfloor>c\<rfloor> else \<lceil>c\<rceil>),
             transcoded_frames = (if 0 \<le> c then \<lfloor>c\<rfloor> else \<lceil>c\<rceil>),
             filesize_mb = round_mb (length copy),
             transcoded_filesize_mb = round_mb (length copy)\<rparr>"
    if "original_video t = Inr original" "content t = Some copy" "content original = Some copy"
      "decode (Some copy) CAP_PROP_FRAME_COUNT = Fin c"
    using that by (simp add: verify_video_def VideoCapture_def py_int_def st_size_def Let_def)
  show ?thesis
    using a b c d by blast
qed

lemmas eval_verify =
  verify_video_def original_video_def relative_to_def under_def OUTPUT_DRIVE_eq
  MOUNT_POINT_def joinpath_def VideoCapture_def py_int_def st_size_def Let_def
  clip_original_def clip_transcoded_def

lemmas eval_table =
  transcoded_metadata_def transcoded_videos_def glob_rec_def below_def suffix_to_prefix

text \<open>The statements about the two example files hold whatever the rounding is.\<close>

theorem verification_table_witness:
  "\<forall>round_mb.
     transcoded_videos output_entries = [clip_transcoded] \<and>
     original_video clip_transcoded = Inr clip_original \<and>
     copied_content clip_transcoded = Some ''AAAA'' \<and>
     copied_content clip_original = Some ''AAAA'' \<and>
     width_decode (Some ''AAAA'') CAP_PROP_FRAME_COUNT = Fin 300 \<and>
     transcoded_metadata width_decode copied_content round_mb output_entries =
       Inr [\<lparr>original_file = clip_original, transcoded_file = clip_transcoded,
             original_frames = 300, transcoded_frames = 300,
             filesize_mb = round_mb (length ''AAAA''),
             transcoded_filesize_mb = round_mb (length ''AAAA'')\<rparr>] \<and>
     verify_video width_decode copied_content round_mb clip_transcoded =
       Inr \<lparr>original_file = clip_original, transcoded_file = clip_transcoded,
            original_frames = 300, transcoded_frames = 300,
            filesize_mb = round_mb (length ''AAAA''),
            transcoded_filesize_mb = round_mb (length ''AAAA'')\<rparr> \<and>
     transcoded_metadata zero_fps_decode copied_content round_mb output_entries =
       transcoded_metadata width_decode copied_content round_mb output_entries \<and>
     Path True [''media'', ''andre'', ''maternal'', ''old'', ''left.mp4'']
       \<in> set (transcoded_videos stray_output_entries) \<and>
     copied_content (Path True [''media'', ''andre'', ''old'', ''left.mp4'']) = None \<and>
     (\<exists>e. transcoded_metadata width_decode copied_content round_mb stray_output_entries
        = Inl e)"
proof
  fix round_mb :: "nat \<Rightarrow> real"
  let ?row = "\<lparr>original_file = clip_original, transcoded_file = clip_transcoded,
             original_frames = 300, transcoded_frames = 300,
             filesize_mb = round_mb (length ''AAAA''),
             transcoded_filesize_mb = round_mb (length ''AAAA'')\<rparr>"
  let ?stray = "Path True [''media'', ''andre'', ''maternal'', ''old'', ''left.mp4'']"
  let ?missing = "Path True [''media'', ''andre'', ''old'', ''left.mp4'']"
  have g: "transcoded_videos output_entries = [clip_transcoded]"
    by (simp add: transcoded_videos_def glob_rec_def below_def suffix_to_prefix
        output_entries_def clip_original_def clip_transcoded_def OUTPUT_DRIVE_eq)
  have h1: "original_video clip_transcoded = Inr clip_original"
    by (simp add: eval_verify)
  have h2: "copied_content clip_transcoded = Some ''AAAA''"
    by (simp add: copied_content_def clip_transcoded_def clip_original_def)
  have h3: "copied_content clip_original = Some ''AAAA''"
    by (simp add: copied_content_def)
  have h4: "width_decode (Some ''AAAA'') CAP_PROP_FRAME_COUNT = Fin 300"
    by (simp add: width_decode_def)
  have h5: "\<forall>b. zero_fps_decode b CAP_PROP_FRAME_COUNT = width_decode b CAP_PROP_FRAME_COUNT"
    by (simp add: zero_fps_decode_def width_decode_def)
  have h6: "?stray \<in> set (transcoded_videos stray_output_entries)"
    by (simp add: transcoded_videos_def glob_rec_def below_def suffix_to_prefix
        stray_output_entries_def clip_original_def clip_transcoded_def OUTPUT_DRIVE_eq)
  have h7: "original_video ?stray = Inr ?missing"
    by (simp add: eval_verify)
  have h8: "copied_content ?missing = None"
    by (simp add: copied_content_def clip_transcoded_def clip_original_def)
  note t1 = verification_table
    [of width_decode copied_content round_mb output_entries "[?row]" ?stray ?missing
        zero_fps_decode clip_transcoded clip_original "''AAAA''" 300]
  note t2 = verification_table
    [of width_decode copied_content round_mb stray_output_entries "[]" ?stray ?missing
        zero_fps_decode clip_transcoded clip_original "''AAAA''" 300]
  have v: "verify_video width_decode copied_content round_mb clip_transcoded = Inr ?row"
    using t1 h1 h2 h3 h4 by simp
  have tab: "transcoded_metadata width_decode copied_content round_mb output_entries =
       Inr [?row]"
    by (simp add: transcoded_metadata_def g v)
  have same: "transcoded_metadata zero_fps_decode copied_content round_mb output_entries =
       transcoded_metadata width_decode copied_content round_mb output_entries"
    using t1 h5 by blast
  have none: "\<exists>e. transcoded_metadata width_decode copied_content round_mb
       stray_output_entries = Inl e"
    using t2 h6 h7 h8 by blast
  from g h1 h2 h3 h4 tab v same h6 h8 none
  show "transcoded_videos output_entries = [clip_transcoded] \<and>
     original_video clip_transcoded = Inr clip_original \<and>
     copied_content clip_transcoded = Some ''AAAA'' \<and>
     copied_content clip_original = Some ''AAAA'' \<and>
     width_decode (Some ''AAAA'') CAP_PROP_FRAME_COUNT = Fin 300 \<and>
     transcoded_metadata width_decode copied_content round_mb output_entries = Inr [?row] \<and>
     verify_video width_decode copied_content round_mb clip_transcoded = Inr ?row \<and>
     transcoded_metadata zero_fps_decode copied_content round_mb output_entries =
       transcoded_metadata width_decode copied_content round_mb output_entries \<and>
     ?stray \<in> set (transcoded_videos stray_output_entries) \<and>
     copied_content ?missing = None \<and>
     (\<exists>e. transcoded_metadata width_decode copied_content round_mb stray_output_entries
        = Inl e)"
    by blast
qed

text \<open>
  A transcoded file with another frame width than its original: the row is, field
  for field, the row of a byte-identical copy, so the difference of the widths is
  recorded nowhere. This holds whatever the rounding of the sizes is.
\<close>

theorem width_change_counterexample:
  "\<forall>round_mb.
     VideoCapture width_decode resized_content clip_original CAP_PROP_FRAME_WIDTH = Fin 720 \<and>
     VideoCapture width_decode resized_content clip_transcoded CAP_PROP_FRAME_WIDTH = Fin 704 \<and>
     verify_video width_decode resized_content round_mb clip_transcoded =
       Inr \<lparr>original_file = clip_original, transcoded_file = clip_transcoded,
            original_frames = 300, transcoded_frames = 300,
            filesize_mb = round_mb (length ''AAAA''),
            transcoded_filesize_mb = round_mb (length ''BBBB'')\<rparr> \<and>
     verify_video width_decode resized_content round_mb clip_transcoded =
       verify_video width_decode copied_content round_mb clip_transcoded \<and>
     transcoded_metadata width_decode resized_content round_mb output_entries =
       transcoded_metadata width_decode copied_content round_mb output_entries"
  by (simp add: eval_verify eval_table output_entries_def width_decode_def
      resized_content_def copied_content_def)

section \<open>The generated commands\<close>

text \<open>
  Claim C8, at a video in a directory whose name has a blank. The line generated
  for \<^verbatim>\<open>/media/andre/11D9-5C57/Day 1/clip.mp4\<close> puts the output directory after
  \<^verbatim>\<open>mkdir -p\<close> as it is, without the quotes that the input and the output file get:
  the text between \<^verbatim>\<open>mkdir -p\<close> and \<^verbatim>\<open>&&\<close> is two words for the shell, and neither
  is the output directory \<^verbatim>\<open>/media/andre/maternal/11D9-5C57/Day 1\<close>.
\<close>

theorem mkdir_operand_not_quoted:
  "transcode_sh blank_entries =
     Inr [''mkdir -p /media/andre/maternal/11D9-5C57/Day 1 &&'' @
          ''ffmpeg -y -hwaccel cuda -hwaccel_output_format cuda -extra_hw_frames 4 -i '' @
          squote @ ''/media/andre/11D9-5C57/Day 1/clip.mp4'' @ squote @
          '' -c:v h264_nvenc -crf 24 '' @
          squote @ ''/media/andre/maternal/11D9-5C57/Day 1/clip.mp4'' @ squote @ newline] \<and>
   path_str (parent (Path True
       [''media'', ''andre'', ''maternal'', ''11D9-5C57'', ''Day 1'', ''clip.mp4''])) =
     ''/media/andre/maternal/11D9-5C57/Day 1''"
  by (simp add: blank_entries_def eval_discovery eval_cmd)

text \<open>
  Claim C9, at a video below a directory whose name ends in a blank. The words after
  \<^verbatim>\<open>mkdir -p\<close> in the generated line are \<^verbatim>\<open>/media/andre/maternal/11D9-5C57/x\<close> and
  \<^verbatim>\<open>/media/andre/11D9-5C57/y\<close>, and the second is a path below the input drive
  \<^verbatim>\<open>11D9-5C57\<close>, not below the output drive.
\<close>

theorem mkdir_operand_in_input_drive:
  "transcode_sh stray_entries =
     Inr [''mkdir -p /media/andre/maternal/11D9-5C57/x '' @
          path_str (Path True [''media'', ''andre'', ''11D9-5C57'', ''y'']) @ '' &&'' @
          ''ffmpeg -y -hwaccel cuda -hwaccel_output_format cuda -extra_hw_frames 4 -i '' @
          squote @ ''/media/andre/11D9-5C57/x /media/andre/11D9-5C57/y/clip.mp4'' @ squote @
          '' -c:v h264_nvenc -crf 24 '' @
          squote @ ''/media/andre/maternal/11D9-5C57/x /media/andre/11D9-5C57/y/clip.mp4'' @
          squote @ newline] \<and>
   below (joinpath MOUNT_POINT (Path False [''11D9-5C57'']))
     (Path True [''media'', ''andre'', ''11D9-5C57'', ''y'']) \<and>
   \<not> under OUTPUT_DRIVE (Path True [''media'', ''andre'', ''11D9-5C57'', ''y''])"
  by (simp add: stray_entries_def eval_discovery eval_cmd)

end
